theory Spec2Isabelle
  imports Complex_Main "HOL-Library.Multiset"
begin

section \<open>Proposal targets of the R-CNN head: detection/core/bbox/bbox_target.py\<close>

text \<open>
  The class \<open>ProposalTarget\<close> samples region proposals of one image into positive and
  negative regions of interest and builds their class and regression targets.

  Conventions of the embedding.
  \<^item> A box is a row of four numbers \<open>(y1, x1, y2, x2)\<close>. Numbers are real: the constants
    of the class (\<open>0.25\<close>, \<open>0.5\<close>, \<open>512\<close>) and every product and quotient the sampling
    arithmetic forms from them are exactly representable in \<open>float32\<close>, so that part of
    the arithmetic is exact; \<open>int32\<close> is not exceeded by a count of at most 512 rows.
    Overlap values are taken to be numbers, never NaN, as \<open>compute_overlaps\<close> is
    required to return; the division of the ground-truth boxes by the image shape is the
    division of real numbers, which is the float division for a nonzero height and width.
  \<^item> \<open>tf.stop_gradient\<close> returns its argument and is left out.
  \<^item> Every way a TensorFlow operation of the method can raise is a value of \<open>tf_error\<close>,
    and the method returns \<open>tf_error + result\<close>.
  \<^item> \<open>tf.random_shuffle\<close> yields some permutation of its argument. The two calls of the
    method are two parameters \<open>shuffle_pos\<close> and \<open>shuffle_neg\<close>; \<open>is_shuffle\<close> says that
    a parameter permutes every list it is given.
  \<^item> \<open>geometry.compute_overlaps\<close>, \<open>transforms.bbox2delta\<close> and \<open>trim_zeros\<close> live in
    modules that are not part of the sources at hand. They are modelled from their
    specification, with the value computed for one pair of boxes left as a parameter.
\<close>

subsection \<open>Data\<close>

type_synonym box = "real \<times> real \<times> real \<times> real"

datatype tf_error =
    EmptyReductionAxis
  | MaskShapeMismatch
  | IndexOutOfRange
  | ZeroDivisionError

text \<open>The attributes of a \<open>ProposalTarget\<close> object.\<close>

record ProposalTarget =
  target_means :: "real list"
  target_stds :: "real list"
  num_rcnn_deltas :: int
  roi_positive_fraction :: real
  pos_iou_thr :: real
  neg_iou_thr :: real

text \<open>
  A rank-2 float tensor whose second dimension may be empty while the first is not, and
  the other way round: the number of columns is kept beside the rows.
\<close>

record tensor2 =
  ncols :: nat
  rows :: "real list list"

subsection \<open>The constructor\<close>

text \<open>
  \<open>__init__(self, target_means, target_stds, num_rcnn_deltas=512)\<close>. The body assigns the
  literal \<open>512\<close> to \<open>self.num_rcnn_deltas\<close>; the argument is not read.
\<close>

definition ProposalTarget_init :: "real list \<Rightarrow> real list \<Rightarrow> int \<Rightarrow> ProposalTarget" where
  "ProposalTarget_init target_means_arg target_stds_arg num_rcnn_deltas_arg =
     \<lparr> target_means = target_means_arg,
       target_stds = target_stds_arg,
       num_rcnn_deltas = 512,
       roi_positive_fraction = 1 / 4,
       pos_iou_thr = 1 / 2,
       neg_iou_thr = 1 / 2 \<rparr>"

subsection \<open>Operations of Python and TensorFlow used by the method\<close>

text \<open>\<open>int(x)\<close> of a Python float and \<open>tf.cast(x, tf.int32)\<close> round towards zero.\<close>

definition trunc :: "real \<Rightarrow> int" where
  "trunc x = (if 0 \<le> x then \<lfloor>x\<rfloor> else \<lceil>x\<rceil>)"

text \<open>The slice \<open>xs[:stop]\<close>; a negative \<open>stop\<close> counts from the end.\<close>

definition slice_upto :: "int \<Rightarrow> 'a list \<Rightarrow> 'a list" where
  "slice_upto stop xs =
     (if 0 \<le> stop then take (nat stop) xs else take (length xs - nat (- stop)) xs)"

text \<open>\<open>tf.where(condition)[:, 0]\<close> of a vector: the indices of the true entries, ascending.\<close>

definition tf_where :: "bool list \<Rightarrow> nat list" where
  "tf_where condition = filter (\<lambda>i. condition ! i) [0..<length condition]"

text \<open>\<open>tf.boolean_mask\<close> of two vectors; their shapes must agree.\<close>

definition boolean_mask :: "'a list \<Rightarrow> bool list \<Rightarrow> tf_error + 'a list" where
  "boolean_mask xs keep =
     (if length xs = length keep then Inr (map fst (filter snd (zip xs keep)))
      else Inl MaskShapeMismatch)"

text \<open>\<open>tf.gather\<close> along the first axis; an index outside the tensor is rejected.\<close>

definition gather :: "'a list \<Rightarrow> nat list \<Rightarrow> tf_error + 'a list" where
  "gather params indices =
     (if \<forall>i \<in> set indices. i < length params then Inr (map (\<lambda>i. params ! i) indices)
      else Inl IndexOutOfRange)"

definition gather_rows :: "tensor2 \<Rightarrow> nat list \<Rightarrow> tf_error + tensor2" where
  "gather_rows t indices =
     (case gather (rows t) indices of
        Inl e \<Rightarrow> Inl e
      | Inr rs \<Rightarrow> Inr \<lparr> ncols = ncols t, rows = rs \<rparr>)"

text \<open>
  \<open>tf.argmax(t, axis=1)\<close>: for each row the first index of its greatest entry. The
  operation rejects an empty reduction axis ("Reduction axis 1 is empty in shape"),
  whatever the number of rows, so \<open>argmax_row\<close> is never applied to an empty row.
\<close>

fun argmax_row :: "real list \<Rightarrow> nat" where
  "argmax_row [] = 0"
| "argmax_row (x # xs) = (if \<forall>y \<in> set xs. y \<le> x then 0 else Suc (argmax_row xs))"

definition argmax_axis1 :: "tensor2 \<Rightarrow> tf_error + nat list" where
  "argmax_axis1 t =
     (if ncols t = 0 then Inl EmptyReductionAxis else Inr (map argmax_row (rows t)))"

text \<open>
  \<open>tf.reduce_max(t, axis=1)\<close>: the greatest entry of each row. The maximum over an empty
  row is minus infinity, written \<open>None\<close>; \<open>tf_greater_equal\<close> and \<open>tf_less\<close> compare such
  a value with a threshold.
\<close>

fun reduce_max_row :: "real list \<Rightarrow> real option" where
  "reduce_max_row [] = None"
| "reduce_max_row (x # xs) = Some (fold max xs x)"

definition reduce_max_axis1 :: "tensor2 \<Rightarrow> real option list" where
  "reduce_max_axis1 t = map reduce_max_row (rows t)"

definition tf_greater_equal :: "real option \<Rightarrow> real \<Rightarrow> bool" where
  "tf_greater_equal m thr = (case m of None \<Rightarrow> False | Some v \<Rightarrow> thr \<le> v)"

definition tf_less :: "real option \<Rightarrow> real \<Rightarrow> bool" where
  "tf_less m thr = (case m of None \<Rightarrow> True | Some v \<Rightarrow> v < thr)"

text \<open>
  \<open>tf.random_shuffle\<close>: the result is a permutation of the argument.
\<close>

definition is_shuffle :: "(nat list \<Rightarrow> nat list) \<Rightarrow> bool" where
  "is_shuffle shuffle \<longleftrightarrow> (\<forall>xs. mset (shuffle xs) = mset xs)"

subsection \<open>Collaborators outside the sources at hand\<close>

text \<open>
  Modelled from the spec: \<open>trim_zeros\<close> of \<open>detection.utils.misc\<close> is missing. The
  specification has it remove the all-zero rows of the padded ground-truth boxes ("a valid
  box has at least one nonzero coordinate") and return the mask of the rows kept.
\<close>

definition trim_zeros :: "box list \<Rightarrow> box list \<times> bool list" where
  "trim_zeros boxes =
     (let non_zeros = map (\<lambda>b. b \<noteq> (0, 0, 0, 0)) boxes
      in (map fst (filter snd (zip boxes non_zeros)), non_zeros))"

text \<open>
  Modelled from the spec: \<open>geometry.compute_overlaps\<close> is missing. The specification has
  it return the matrix \<open>[|A|, |B|]\<close> whose entry \<open>(i, j)\<close> is the intersection over union
  of box \<open>i\<close> of \<open>A\<close> and box \<open>j\<close> of \<open>B\<close>. The overlap of one pair is the parameter \<open>iou\<close>.
\<close>

definition compute_overlaps :: "(box \<Rightarrow> box \<Rightarrow> real) \<Rightarrow> box list \<Rightarrow> box list \<Rightarrow> tensor2" where
  "compute_overlaps iou boxes1 boxes2 =
     \<lparr> ncols = length boxes2, rows = map (\<lambda>a. map (iou a) boxes2) boxes1 \<rparr>"

text \<open>
  Modelled from the spec: the overlap of one pair of boxes, as the specification of
  \<open>compute_overlaps\<close> describes it: intersection area over union area, zero when the boxes
  do not intersect, and zero rather than a division by zero when the union is empty.
\<close>

definition box_iou :: "box \<Rightarrow> box \<Rightarrow> real" where
  "box_iou a b =
     (case a of (ay1, ax1, ay2, ax2) \<Rightarrow>
      case b of (by1, bx1, by2, bx2) \<Rightarrow>
        let ih = max 0 (min ay2 by2 - max ay1 by1);
            iw = max 0 (min ax2 bx2 - max ax1 bx1);
            inter = ih * iw;
            union = (ay2 - ay1) * (ax2 - ax1) + (by2 - by1) * (bx2 - bx1) - inter
        in if union = 0 then 0 else inter / union)"

text \<open>
  Modelled from the spec: \<open>transforms.bbox2delta\<close> is missing. The specification has it
  convert each pair of a source and a destination box into one row of deltas,
  standardised by the means and standard deviations. The row of one pair is the
  parameter \<open>delta\<close>.
\<close>

definition bbox2delta ::
  "(real list \<Rightarrow> real list \<Rightarrow> box \<Rightarrow> box \<Rightarrow> 'd) \<Rightarrow> box list \<Rightarrow> box list \<Rightarrow> real list \<Rightarrow> real list \<Rightarrow> 'd list" where
  "bbox2delta delta src_boxes dst_boxes means stds =
     map (\<lambda>(s, d). delta means stds s d) (zip src_boxes dst_boxes)"

subsection \<open>The method \<open>_build_single_target\<close>\<close>

text \<open>
  A step that may raise: the rest of the method runs on the value of a step that returned.
\<close>

definition raising :: "tf_error + 'a \<Rightarrow> ('a \<Rightarrow> tf_error + 'b) \<Rightarrow> tf_error + 'b" where
  "raising step rest = (case step of Inl e \<Rightarrow> Inl e | Inr v \<Rightarrow> rest v)"

text \<open>
  The values of the local variables of one call that returns, as far as the properties
  below speak of them. \<open>negative_candidates\<close> is \<open>negative_indices\<close> before the
  subsampling (line 92); \<open>positive_indices\<close> and \<open>negative_indices\<close> are the variables
  after it (lines 97 and 103). \<open>gt_boxes_l\<close> is \<open>gt_boxes\<close> after line 83,
  \<open>gt_class_ids_l\<close> is \<open>gt_class_ids\<close> after line 81, and \<open>target_matchs\<close> is the value
  after line 121.
\<close>

record 'd locals =
  gt_boxes_l :: "box list"
  gt_class_ids_l :: "int list"
  overlaps :: tensor2
  anchor_iou_argmax :: "nat list"
  roi_iou_max :: "real option list"
  negative_candidates :: "nat list"
  positive_indices :: "nat list"
  negative_indices :: "nat list"
  roi_gt_box_assignment :: "nat list"
  rois :: "box list"
  target_matchs :: "int list"
  target_deltas :: "'d list"

definition build_single_target_locals ::
  "ProposalTarget \<Rightarrow> (nat list \<Rightarrow> nat list) \<Rightarrow> (nat list \<Rightarrow> nat list) \<Rightarrow>
   (box \<Rightarrow> box \<Rightarrow> real) \<Rightarrow> (real list \<Rightarrow> real list \<Rightarrow> box \<Rightarrow> box \<Rightarrow> 'd) \<Rightarrow>
   box list \<Rightarrow> box list \<Rightarrow> int list \<Rightarrow> real \<times> real \<Rightarrow> tf_error + 'd locals" where
  "build_single_target_locals self shuffle_pos shuffle_neg iou delta
       proposals gt_boxes gt_class_ids img_shape =
     (case img_shape of (H, W) \<Rightarrow>
     (case trim_zeros gt_boxes of (gt_boxes1, non_zeros) \<Rightarrow>
      raising (boolean_mask gt_class_ids non_zeros) (\<lambda>gt_class_ids1.
      let gt_boxes2 = map (\<lambda>(y1, x1, y2, x2). (y1 / H, x1 / W, y2 / H, x2 / W)) gt_boxes1;
          overlaps1 = compute_overlaps iou proposals gt_boxes2
      in
      raising (argmax_axis1 overlaps1) (\<lambda>anchor_iou_argmax1.
      let roi_iou_max1 = reduce_max_axis1 overlaps1;
          positive_roi_bool = map (\<lambda>m. tf_greater_equal m (pos_iou_thr self)) roi_iou_max1;
          positive_indices0 = tf_where positive_roi_bool;
          negative_indices0 = tf_where (map (\<lambda>m. tf_less m (neg_iou_thr self)) roi_iou_max1);
          positive_count0 = trunc (of_int (num_rcnn_deltas self) * roi_positive_fraction self);
          positive_indices1 = slice_upto positive_count0 (shuffle_pos positive_indices0);
          positive_count1 = int (length positive_indices1)
      in
      if roi_positive_fraction self = 0 then Inl ZeroDivisionError
      else
      let r = 1 / roi_positive_fraction self;
          negative_count1 = trunc (r * of_int positive_count1) - positive_count1;
          negative_indices1 = slice_upto negative_count1 (shuffle_neg negative_indices0)
      in
      raising (gather proposals positive_indices1) (\<lambda>positive_rois1.
      raising (gather proposals negative_indices1) (\<lambda>negative_rois1.
      raising (gather_rows overlaps1 positive_indices1) (\<lambda>positive_overlaps.
      raising (argmax_axis1 positive_overlaps) (\<lambda>roi_gt_box_assignment1.
      raising (gather gt_boxes2 roi_gt_box_assignment1) (\<lambda>roi_gt_boxes1.
      raising (gather gt_class_ids1 roi_gt_box_assignment1) (\<lambda>target_matchs1.
      let target_deltas1 =
            bbox2delta delta positive_rois1 roi_gt_boxes1 (target_means self) (target_stds self);
          rois1 = positive_rois1 @ negative_rois1;
          N = length negative_rois1;
          target_matchs2 = target_matchs1 @ replicate N 0
      in Inr \<lparr> gt_boxes_l = gt_boxes2,
               gt_class_ids_l = gt_class_ids1,
               overlaps = overlaps1,
               anchor_iou_argmax = anchor_iou_argmax1,
               roi_iou_max = roi_iou_max1,
               negative_candidates = negative_indices0,
               positive_indices = positive_indices1,
               negative_indices = negative_indices1,
               roi_gt_box_assignment = roi_gt_box_assignment1,
               rois = rois1,
               target_matchs = target_matchs2,
               target_deltas = target_deltas1 \<rparr>))))))))))"

text \<open>The method returns \<open>rois, target_matchs, target_deltas\<close>.\<close>

definition build_single_target ::
  "ProposalTarget \<Rightarrow> (nat list \<Rightarrow> nat list) \<Rightarrow> (nat list \<Rightarrow> nat list) \<Rightarrow>
   (box \<Rightarrow> box \<Rightarrow> real) \<Rightarrow> (real list \<Rightarrow> real list \<Rightarrow> box \<Rightarrow> box \<Rightarrow> 'd) \<Rightarrow>
   box list \<Rightarrow> box list \<Rightarrow> int list \<Rightarrow> real \<times> real \<Rightarrow>
   tf_error + (box list \<times> int list \<times> 'd list)" where
  "build_single_target self shuffle_pos shuffle_neg iou delta
       proposals gt_boxes gt_class_ids img_shape =
     (case build_single_target_locals self shuffle_pos shuffle_neg iou delta
             proposals gt_boxes gt_class_ids img_shape of
        Inl e \<Rightarrow> Inl e
      | Inr l \<Rightarrow> Inr (rois l, target_matchs l, target_deltas l))"

subsection \<open>Two calls written out\<close>

text \<open>
  An image of height 10 and width 20 with two labelled objects (classes 3 and 5) and one
  padding row, and four proposals: three overlap a ground-truth box by at least one half,
  the fourth, the whole image, overlaps each by 4/25. Both shuffles reverse their
  argument, and the delta of a pair is the pair itself. \<open>scenario_locals\<close> are the values
  that the call computes.
\<close>

abbreviation scenario_self :: ProposalTarget where
  "scenario_self \<equiv> ProposalTarget_init [0, 0, 0, 0] [1 / 10, 1 / 10, 1 / 5, 1 / 5] 256"

abbreviation pair_delta :: "real list \<Rightarrow> real list \<Rightarrow> box \<Rightarrow> box \<Rightarrow> box \<times> box" where
  "pair_delta \<equiv> (\<lambda>means stds s d. (s, d))"

definition scenario_proposals :: "box list" where
  "scenario_proposals =
     [(0, 0, 1 / 2, 1 / 2), (3 / 5, 3 / 5, 1, 1), (0, 0, 2 / 5, 2 / 5), (0, 0, 1, 1)]"

definition scenario_gt_boxes :: "box list" where
  "scenario_gt_boxes = [(0, 0, 4, 8), (0, 0, 0, 0), (6, 12, 10, 20)]"

definition scenario_gt_class_ids :: "int list" where
  "scenario_gt_class_ids = [3, 0, 5]"

definition scenario_locals :: "(box \<times> box) locals" where
  "scenario_locals =
     \<lparr> gt_boxes_l = [(0, 0, 2 / 5, 2 / 5), (3 / 5, 3 / 5, 1, 1)],
       gt_class_ids_l = [3, 5],
       overlaps = \<lparr> ncols = 2, rows = [[16 / 25, 0], [0, 1], [1, 0], [4 / 25, 4 / 25]] \<rparr>,
       anchor_iou_argmax = [0, 1, 0, 0],
       roi_iou_max = [Some (16 / 25), Some 1, Some 1, Some (4 / 25)],
       negative_candidates = [3],
       positive_indices = [2, 1, 0],
       negative_indices = [3],
       roi_gt_box_assignment = [0, 1, 0],
       rois = [(0, 0, 2 / 5, 2 / 5), (3 / 5, 3 / 5, 1, 1), (0, 0, 1 / 2, 1 / 2), (0, 0, 1, 1)],
       target_matchs = [3, 5, 3, 0],
       target_deltas = [((0, 0, 2 / 5, 2 / 5), (0, 0, 2 / 5, 2 / 5)),
                        ((3 / 5, 3 / 5, 1, 1), (3 / 5, 3 / 5, 1, 1)),
                        ((0, 0, 1 / 2, 1 / 2), (0, 0, 2 / 5, 2 / 5))] \<rparr>"

text \<open>
  The same image with one labelled object and two proposals far from it: no proposal
  reaches the positive threshold, both are candidates for the negatives.
\<close>

definition quiet_proposals :: "box list" where
  "quiet_proposals = [(3 / 5, 3 / 5, 1, 1), (0, 0, 1, 1)]"

definition quiet_gt_boxes :: "box list" where
  "quiet_gt_boxes = [(0, 0, 4, 8), (0, 0, 0, 0)]"

definition quiet_gt_class_ids :: "int list" where
  "quiet_gt_class_ids = [3, 0]"

definition quiet_locals :: "(box \<times> box) locals" where
  "quiet_locals =
     \<lparr> gt_boxes_l = [(0, 0, 2 / 5, 2 / 5)],
       gt_class_ids_l = [3],
       overlaps = \<lparr> ncols = 1, rows = [[0], [4 / 25]] \<rparr>,
       anchor_iou_argmax = [0, 0],
       roi_iou_max = [Some 0, Some (4 / 25)],
       negative_candidates = [0, 1],
       positive_indices = [],
       negative_indices = [],
       roi_gt_box_assignment = [],
       rois = [],
       target_matchs = [],
       target_deltas = [] \<rparr>"

subsection \<open>Facts about the operations\<close>

lemma set_tf_where: "set (tf_where c) = {i. i < length c \<and> c ! i}"
  by (auto simp: tf_where_def)

lemma distinct_tf_where: "distinct (tf_where c)"
  by (simp add: tf_where_def)

lemma set_slice_upto: "set (slice_upto k xs) \<subseteq> set xs"
  by (simp add: slice_upto_def set_take_subset)

lemma distinct_slice_upto: "distinct xs \<Longrightarrow> distinct (slice_upto k xs)"
  by (simp add: slice_upto_def)

lemma length_slice_upto: "0 \<le> k \<Longrightarrow> int (length (slice_upto k xs)) = min k (int (length xs))"
  by (simp add: slice_upto_def)

lemma slice_upto_zero: "slice_upto 0 xs = []"
  by (simp add: slice_upto_def)

lemma slice_upto_Nil: "slice_upto k [] = []"
  by (simp add: slice_upto_def)

lemma is_shuffle_set: "is_shuffle f \<Longrightarrow> set (f xs) = set xs"
  unfolding is_shuffle_def by (metis set_mset_mset)

lemma is_shuffle_length: "is_shuffle f \<Longrightarrow> length (f xs) = length xs"
  unfolding is_shuffle_def by (metis size_mset)

lemma is_shuffle_distinct: "is_shuffle f \<Longrightarrow> distinct (f xs) = distinct xs"
  unfolding is_shuffle_def by (metis distinct_count_atmost_1 set_mset_mset)

lemma is_shuffle_Nil: "is_shuffle f \<Longrightarrow> f [] = []"
  unfolding is_shuffle_def by (metis mset_zero_iff)

lemma trunc_of_int: "trunc (of_int z) = z"
  by (simp add: trunc_def)

lemma reduce_max_row_Max: "xs \<noteq> [] \<Longrightarrow> reduce_max_row xs = Some (Max (set xs))"
  by (cases xs) (simp_all add: Max.set_eq_fold [symmetric])

lemma argmax_row_less: "xs \<noteq> [] \<Longrightarrow> argmax_row xs < length xs"
proof (induction xs)
  case Nil
  then show ?case by simp
next
  case (Cons x xs)
  show ?case
  proof (cases "\<forall>y \<in> set xs. y \<le> x")
    case True
    then show ?thesis by simp
  next
    case False
    then have "xs \<noteq> []" by auto
    with False Cons.IH show ?thesis by auto
  qed
qed

lemma argmax_row_max: "xs \<noteq> [] \<Longrightarrow> xs ! argmax_row xs = Max (set xs)"
proof (induction xs)
  case Nil
  then show ?case by simp
next
  case (Cons x xs)
  show ?case
  proof (cases "\<forall>y \<in> set xs. y \<le> x")
    case True
    then have "Max (set (x # xs)) = x"
      by (intro Max_eqI) auto
    with True show ?thesis by simp
  next
    case False
    then have ne: "xs \<noteq> []" by auto
    from False obtain y where y: "y \<in> set xs" "x < y" by (auto simp: not_le)
    then have "x < Max (set xs)"
      by (meson List.finite_set Max_ge less_le_trans)
    then have "Max (set (x # xs)) = Max (set xs)"
      using ne by (simp add: max_def)
    with False Cons.IH [OF ne] show ?thesis by auto
  qed
qed

lemma argmax_row_first: "i < argmax_row xs \<Longrightarrow> xs ! i < xs ! argmax_row xs"
proof (induction xs arbitrary: i)
  case Nil
  then show ?case by simp
next
  case (Cons x xs)
  show ?case
  proof (cases "\<forall>y \<in> set xs. y \<le> x")
    case True
    with Cons.prems show ?thesis by simp
  next
    case False
    then have ne: "xs \<noteq> []" by auto
    from False obtain y where y: "y \<in> set xs" "x < y" by (auto simp: not_le)
    then have lt: "x < Max (set xs)"
      by (meson List.finite_set Max_ge less_le_trans)
    show ?thesis
    proof (cases i)
      case 0
      with False lt argmax_row_max [OF ne] show ?thesis by auto
    next
      case (Suc j)
      from False Cons.prems Suc have "j < argmax_row xs"
        by (auto split: if_splits)
      with Cons.IH [of j] False Suc show ?thesis by auto
    qed
  qed
qed

lemma trim_zeros_eq:
  "trim_zeros boxes = (filter (\<lambda>b. b \<noteq> (0, 0, 0, 0)) boxes, map (\<lambda>b. b \<noteq> (0, 0, 0, 0)) boxes)"
proof -
  have "map fst (filter snd (zip boxes (map P boxes))) = filter P boxes" for P :: "box \<Rightarrow> bool"
    by (induction boxes) auto
  then show ?thesis by (simp add: trim_zeros_def Let_def)
qed

lemma length_masked_ids:
  "length xs = length bs \<Longrightarrow>
   length (map fst (filter snd (zip xs (map P bs)))) = length (filter P bs)"
  by (induction xs bs rule: list_induct2) auto


subsection \<open>What a returning call has computed\<close>

text \<open>
  A call that returns has passed every check of the operations it uses, and its local
  variables are related as the assignments of the method say.
\<close>

lemma raising_InrE:
  assumes "raising step rest = Inr y"
  obtains v where "step = Inr v" and "rest v = Inr y"
  using assms by (cases step) (simp_all add: raising_def)

lemma gather_eq_Inr:
  "(gather params indices = Inr r) =
     ((\<forall>i \<in> set indices. i < length params) \<and> r = map (\<lambda>i. params ! i) indices)"
  by (auto simp: gather_def)

lemma gather_rows_eq_Inr:
  "(gather_rows t indices = Inr r) =
     ((\<forall>i \<in> set indices. i < length (rows t)) \<and>
      r = \<lparr> ncols = ncols t, rows = map (\<lambda>i. rows t ! i) indices \<rparr>)"
  by (auto simp: gather_rows_def gather_def)

lemma argmax_axis1_eq_Inr:
  "(argmax_axis1 t = Inr r) = (ncols t \<noteq> 0 \<and> r = map argmax_row (rows t))"
  by (auto simp: argmax_axis1_def)

lemma boolean_mask_eq_Inr:
  "(boolean_mask xs keep = Inr r) =
     (length xs = length keep \<and> r = map fst (filter snd (zip xs keep)))"
  by (auto simp: boolean_mask_def)

lemma locals_InrD_all:
  assumes "build_single_target_locals self sp sn iou delta props gtb gtc (H, W) = Inr l"
  shows "length gtc = length gtb
    \<and> gt_boxes_l l \<noteq> []
    \<and> roi_positive_fraction self \<noteq> 0
    \<and> gt_boxes_l l = map (\<lambda>(y1, x1, y2, x2). (y1 / H, x1 / W, y2 / H, x2 / W))
          (filter (\<lambda>b. b \<noteq> (0, 0, 0, 0)) gtb)
    \<and> gt_class_ids_l l = map fst (filter snd (zip gtc (map (\<lambda>b. b \<noteq> (0, 0, 0, 0)) gtb)))
    \<and> overlaps l = compute_overlaps iou props (gt_boxes_l l)
    \<and> anchor_iou_argmax l = map argmax_row (rows (overlaps l))
    \<and> roi_iou_max l = reduce_max_axis1 (overlaps l)
    \<and> negative_candidates l = tf_where (map (\<lambda>m. tf_less m (neg_iou_thr self)) (roi_iou_max l))
    \<and> positive_indices l =
        slice_upto (trunc (of_int (num_rcnn_deltas self) * roi_positive_fraction self))
          (sp (tf_where (map (\<lambda>m. tf_greater_equal m (pos_iou_thr self)) (roi_iou_max l))))
    \<and> negative_indices l =
        slice_upto
          (trunc (1 / roi_positive_fraction self * of_int (int (length (positive_indices l))))
             - int (length (positive_indices l)))
          (sn (negative_candidates l))
    \<and> (\<forall>i \<in> set (positive_indices l). i < length props)
    \<and> (\<forall>i \<in> set (negative_indices l). i < length props)
    \<and> roi_gt_box_assignment l =
        map (\<lambda>i. argmax_row (rows (overlaps l) ! i)) (positive_indices l)
    \<and> (\<forall>j \<in> set (roi_gt_box_assignment l). j < length (gt_class_ids_l l))
    \<and> rois l =
        map (\<lambda>i. props ! i) (positive_indices l) @ map (\<lambda>i. props ! i) (negative_indices l)
    \<and> target_matchs l =
        map (\<lambda>j. gt_class_ids_l l ! j) (roi_gt_box_assignment l)
          @ replicate (length (negative_indices l)) 0
    \<and> target_deltas l =
        bbox2delta delta (map (\<lambda>i. props ! i) (positive_indices l))
          (map (\<lambda>j. gt_boxes_l l ! j) (roi_gt_box_assignment l))
          (target_means self) (target_stds self)"
  using assms
  unfolding build_single_target_locals_def
  apply (simp only: prod.case split: prod.splits)
  apply (erule raising_InrE)
  apply (simp only: Let_def)
  apply (erule raising_InrE)
  apply (simp only: split: if_splits)
   apply (simp only: sum.distinct)
  apply (erule raising_InrE)+
  apply (clarsimp simp: gather_eq_Inr gather_rows_eq_Inr argmax_axis1_eq_Inr
        boolean_mask_eq_Inr compute_overlaps_def trim_zeros_eq)
  done

lemma locals_gt_shapes:
  assumes "build_single_target_locals self sp sn iou delta props gtb gtc (H, W) = Inr l"
  shows "length gtc = length gtb \<and> gt_boxes_l l \<noteq> []"
  using locals_InrD_all [OF assms] by blast

lemma locals_fraction:
  assumes "build_single_target_locals self sp sn iou delta props gtb gtc (H, W) = Inr l"
  shows "roi_positive_fraction self \<noteq> 0"
  using locals_InrD_all [OF assms] by blast

lemma locals_gt_boxes:
  assumes "build_single_target_locals self sp sn iou delta props gtb gtc (H, W) = Inr l"
  shows "gt_boxes_l l = map (\<lambda>(y1, x1, y2, x2). (y1 / H, x1 / W, y2 / H, x2 / W))
          (filter (\<lambda>b. b \<noteq> (0, 0, 0, 0)) gtb)"
  using locals_InrD_all [OF assms] by blast

lemma locals_gt_class_ids:
  assumes "build_single_target_locals self sp sn iou delta props gtb gtc (H, W) = Inr l"
  shows "gt_class_ids_l l = map fst (filter snd (zip gtc (map (\<lambda>b. b \<noteq> (0, 0, 0, 0)) gtb)))"
  using locals_InrD_all [OF assms] by blast

lemma locals_overlaps:
  assumes "build_single_target_locals self sp sn iou delta props gtb gtc (H, W) = Inr l"
  shows "overlaps l = compute_overlaps iou props (gt_boxes_l l)"
  using locals_InrD_all [OF assms] by blast

lemma locals_anchor_iou_argmax:
  assumes "build_single_target_locals self sp sn iou delta props gtb gtc (H, W) = Inr l"
  shows "anchor_iou_argmax l = map argmax_row (rows (overlaps l))"
  using locals_InrD_all [OF assms] by blast

lemma locals_roi_iou_max:
  assumes "build_single_target_locals self sp sn iou delta props gtb gtc (H, W) = Inr l"
  shows "roi_iou_max l = reduce_max_axis1 (overlaps l)"
  using locals_InrD_all [OF assms] by blast

lemma locals_negative_candidates:
  assumes "build_single_target_locals self sp sn iou delta props gtb gtc (H, W) = Inr l"
  shows "negative_candidates l = tf_where (map (\<lambda>m. tf_less m (neg_iou_thr self)) (roi_iou_max l))"
  using locals_InrD_all [OF assms] by blast

lemma locals_positive_indices:
  assumes "build_single_target_locals self sp sn iou delta props gtb gtc (H, W) = Inr l"
  shows "positive_indices l =
        slice_upto (trunc (of_int (num_rcnn_deltas self) * roi_positive_fraction self))
          (sp (tf_where (map (\<lambda>m. tf_greater_equal m (pos_iou_thr self)) (roi_iou_max l))))"
  using locals_InrD_all [OF assms] by blast

lemma locals_negative_indices:
  assumes "build_single_target_locals self sp sn iou delta props gtb gtc (H, W) = Inr l"
  shows "negative_indices l =
        slice_upto
          (trunc (1 / roi_positive_fraction self * of_int (int (length (positive_indices l))))
             - int (length (positive_indices l)))
          (sn (negative_candidates l))"
  using locals_InrD_all [OF assms] by blast

lemma locals_indices_in_range:
  assumes "build_single_target_locals self sp sn iou delta props gtb gtc (H, W) = Inr l"
  shows "(\<forall>i \<in> set (positive_indices l). i < length props)
       \<and> (\<forall>i \<in> set (negative_indices l). i < length props)"
  using locals_InrD_all [OF assms] by blast

lemma locals_roi_gt_box_assignment:
  assumes "build_single_target_locals self sp sn iou delta props gtb gtc (H, W) = Inr l"
  shows "roi_gt_box_assignment l =
        map (\<lambda>i. argmax_row (rows (overlaps l) ! i)) (positive_indices l)"
  using locals_InrD_all [OF assms] by blast

lemma locals_assignment_in_range:
  assumes "build_single_target_locals self sp sn iou delta props gtb gtc (H, W) = Inr l"
  shows "\<forall>j \<in> set (roi_gt_box_assignment l). j < length (gt_class_ids_l l)"
  using locals_InrD_all [OF assms] by blast

lemma locals_rois:
  assumes "build_single_target_locals self sp sn iou delta props gtb gtc (H, W) = Inr l"
  shows "rois l =
        map (\<lambda>i. props ! i) (positive_indices l) @ map (\<lambda>i. props ! i) (negative_indices l)"
  using locals_InrD_all [OF assms] by blast

lemma locals_target_matchs:
  assumes "build_single_target_locals self sp sn iou delta props gtb gtc (H, W) = Inr l"
  shows "target_matchs l =
        map (\<lambda>j. gt_class_ids_l l ! j) (roi_gt_box_assignment l)
          @ replicate (length (negative_indices l)) 0"
  using locals_InrD_all [OF assms] by blast

lemma locals_target_deltas:
  assumes "build_single_target_locals self sp sn iou delta props gtb gtc (H, W) = Inr l"
  shows "target_deltas l =
        bbox2delta delta (map (\<lambda>i. props ! i) (positive_indices l))
          (map (\<lambda>j. gt_boxes_l l ! j) (roi_gt_box_assignment l))
          (target_means self) (target_stds self)"
  using locals_InrD_all [OF assms] by blast

lemma build_of_locals:
  "build_single_target_locals self sp sn iou delta props gtb gtc shape = Inr l \<Longrightarrow>
   build_single_target self sp sn iou delta props gtb gtc shape
     = Inr (rois l, target_matchs l, target_deltas l)"
  by (simp add: build_single_target_def)

lemma locals_of_build:
  "build_single_target self sp sn iou delta props gtb gtc shape = Inr out \<Longrightarrow>
   \<exists>l. build_single_target_locals self sp sn iou delta props gtb gtc shape = Inr l
      \<and> out = (rois l, target_matchs l, target_deltas l)"
  by (auto simp: build_single_target_def split: sum.splits)

lemma length_roi_iou_max:
  assumes "build_single_target_locals self sp sn iou delta props gtb gtc (H, W) = Inr l"
  shows "length (roi_iou_max l) = length props"
  by (simp add: locals_roi_iou_max [OF assms] locals_overlaps [OF assms]
        reduce_max_axis1_def compute_overlaps_def)

lemma rows_overlaps:
  assumes "build_single_target_locals self sp sn iou delta props gtb gtc (H, W) = Inr l"
  shows "rows (overlaps l) = map (\<lambda>a. map (iou a) (gt_boxes_l l)) props"
    and "ncols (overlaps l) = length (gt_boxes_l l)"
  by (simp_all add: locals_overlaps [OF assms] compute_overlaps_def)

lemma roi_iou_max_nth:
  assumes run: "build_single_target_locals self sp sn iou delta props gtb gtc (H, W) = Inr l"
    and i: "i < length props"
  shows "roi_iou_max l ! i = Some (Max ((\<lambda>g. iou (props ! i) g) ` set (gt_boxes_l l)))"
proof -
  from locals_gt_shapes [OF run] have ne: "gt_boxes_l l \<noteq> []" by blast
  have "roi_iou_max l = map (\<lambda>a. reduce_max_row (map (iou a) (gt_boxes_l l))) props"
    by (simp add: locals_roi_iou_max [OF run] rows_overlaps [OF run] reduce_max_axis1_def)
  with i have "roi_iou_max l ! i = reduce_max_row (map (iou (props ! i)) (gt_boxes_l l))"
    by simp
  also have "\<dots> = Some (Max (set (map (iou (props ! i)) (gt_boxes_l l))))"
    using ne by (intro reduce_max_row_Max) simp
  finally show ?thesis by simp
qed

lemma positive_indices_subset:
  assumes run: "build_single_target_locals self sp sn iou delta props gtb gtc (H, W) = Inr l"
    and sp: "is_shuffle sp"
  shows "set (positive_indices l)
           \<subseteq> {i. i < length props \<and> tf_greater_equal (roi_iou_max l ! i) (pos_iou_thr self)}"
proof -
  have "set (positive_indices l)
      \<subseteq> set (sp (tf_where (map (\<lambda>m. tf_greater_equal m (pos_iou_thr self)) (roi_iou_max l))))"
    by (subst locals_positive_indices [OF run]) (rule set_slice_upto)
  also have "\<dots> = set (tf_where (map (\<lambda>m. tf_greater_equal m (pos_iou_thr self)) (roi_iou_max l)))"
    by (rule is_shuffle_set [OF sp])
  also have "\<dots> \<subseteq> {i. i < length props \<and> tf_greater_equal (roi_iou_max l ! i) (pos_iou_thr self)}"
    by (auto simp: set_tf_where length_roi_iou_max [OF run])
  finally show ?thesis .
qed

lemma negative_indices_subset:
  assumes run: "build_single_target_locals self sp sn iou delta props gtb gtc (H, W) = Inr l"
    and sn: "is_shuffle sn"
  shows "set (negative_indices l)
           \<subseteq> {i. i < length props \<and> tf_less (roi_iou_max l ! i) (neg_iou_thr self)}"
proof -
  have "set (negative_indices l) \<subseteq> set (sn (negative_candidates l))"
    by (subst locals_negative_indices [OF run]) (rule set_slice_upto)
  also have "\<dots> = set (negative_candidates l)"
    by (rule is_shuffle_set [OF sn])
  also have "\<dots> = set (tf_where (map (\<lambda>m. tf_less m (neg_iou_thr self)) (roi_iou_max l)))"
    by (simp only: locals_negative_candidates [OF run])
  also have "\<dots> \<subseteq> {i. i < length props \<and> tf_less (roi_iou_max l ! i) (neg_iou_thr self)}"
    by (auto simp: set_tf_where length_roi_iou_max [OF run])
  finally show ?thesis .
qed

text \<open>The two quotas of an object made by the constructor: 128 positives, and three
  negatives for each positive kept.\<close>

lemma init_positive_cap:
  "trunc (of_int (num_rcnn_deltas (ProposalTarget_init tm ts n))
            * roi_positive_fraction (ProposalTarget_init tm ts n)) = 128"
  by (simp add: ProposalTarget_init_def trunc_def)

lemma init_negative_quota:
  "trunc (1 / roi_positive_fraction (ProposalTarget_init tm ts n) * of_int (int p)) - int p
     = 3 * int p"
proof -
  have "1 / roi_positive_fraction (ProposalTarget_init tm ts n) * of_int (int p)
          = (of_int (4 * int p) :: real)"
    by (simp add: ProposalTarget_init_def)
  moreover have "trunc (of_int (4 * int p)) = 4 * int p"
    by (rule trunc_of_int)
  ultimately show ?thesis by simp
qed

lemma init_counts:
  assumes run: "build_single_target_locals (ProposalTarget_init tm ts n) sp sn iou delta
                  props gtb gtc (H, W) = Inr l"
  shows "int (length (positive_indices l)) \<le> 128"
    and "int (length (negative_indices l))
           = min (3 * int (length (positive_indices l))) (int (length (sn (negative_candidates l))))"
proof -
  have "positive_indices l = slice_upto 128
      (sp (tf_where (map (\<lambda>m. tf_greater_equal m (pos_iou_thr (ProposalTarget_init tm ts n)))
         (roi_iou_max l))))"
    using locals_positive_indices [OF run] by (simp only: init_positive_cap)
  then have "length (positive_indices l) \<le> 128"
    by (simp add: slice_upto_def)
  then show "int (length (positive_indices l)) \<le> 128"
    by simp
  have "negative_indices l
      = slice_upto (3 * int (length (positive_indices l))) (sn (negative_candidates l))"
    using locals_negative_indices [OF run] by (simp only: init_negative_quota)
  then show "int (length (negative_indices l))
           = min (3 * int (length (positive_indices l))) (int (length (sn (negative_candidates l))))"
    by (simp add: length_slice_upto)
qed

subsection \<open>Which calls return\<close>

text \<open>
  A call returns when the class ids have the shape of the boxes, some ground-truth row is
  not all zero, and the positive fraction is not zero. No other check of the method can
  fail: every index it gathers is in range.
\<close>

lemma raising_InrI: "step = Inr v \<Longrightarrow> rest v = Inr y \<Longrightarrow> raising step rest = Inr y"
  by (simp add: raising_def)

lemma raising_InlI: "step = Inl e \<Longrightarrow> raising step rest = Inl e"
  by (simp add: raising_def)

lemma boolean_mask_Inr:
  "length xs = length keep \<Longrightarrow> boolean_mask xs keep = Inr (map fst (filter snd (zip xs keep)))"
  by (simp add: boolean_mask_def)

lemma gather_Inr:
  "\<forall>i \<in> set indices. i < length params \<Longrightarrow>
   gather params indices = Inr (map (\<lambda>i. params ! i) indices)"
  by (simp add: gather_def)

lemma gather_rows_Inr:
  "\<forall>i \<in> set indices. i < length (rows t) \<Longrightarrow>
   gather_rows t indices = Inr \<lparr> ncols = ncols t, rows = map (\<lambda>i. rows t ! i) indices \<rparr>"
  by (simp add: gather_rows_def gather_def)

lemma argmax_axis1_Inr:
  "ncols t \<noteq> 0 \<Longrightarrow> argmax_axis1 t = Inr (map argmax_row (rows t))"
  by (simp add: argmax_axis1_def)

lemma sampled_in_range:
  assumes "is_shuffle f" and "length c = n"
  shows "\<forall>i \<in> set (slice_upto k (f (tf_where c))). i < n"
proof
  fix i assume "i \<in> set (slice_upto k (f (tf_where c)))"
  with set_slice_upto have "i \<in> set (f (tf_where c))" by fastforce
  with assms show "i < n" by (simp add: is_shuffle_set set_tf_where)
qed

lemma assigned_in_range:
  assumes "G \<noteq> []" and "\<forall>i \<in> set indices. i < length props" and "n = length G"
  shows "\<forall>j \<in> set (map argmax_row
            (rows \<lparr> ncols = c,
                    rows = map (\<lambda>i. rows (compute_overlaps iou props G) ! i) indices \<rparr>)). j < n"
proof -
  have "argmax_row (rows (compute_overlaps iou props G) ! i) < n" if "i \<in> set indices" for i
  proof -
    from that assms(2) have "i < length props" by blast
    then have "rows (compute_overlaps iou props G) ! i = map (iou (props ! i)) G"
      by (simp add: compute_overlaps_def)
    moreover have "argmax_row (map (iou (props ! i)) G) < length (map (iou (props ! i)) G)"
      using assms(1) by (intro argmax_row_less) simp
    ultimately show ?thesis using assms(3) by simp
  qed
  then show ?thesis by simp
qed

lemma build_single_target_locals_returns:
  assumes len: "length gtc = length gtb"
    and nz: "\<exists>b \<in> set gtb. b \<noteq> (0, 0, 0, 0)"
    and fr: "roi_positive_fraction self \<noteq> 0"
    and sp: "is_shuffle sp" and sn: "is_shuffle sn"
  shows "\<exists>l. build_single_target_locals self sp sn iou delta props gtb gtc (H, W) = Inr l"
proof -
  from nz have ne0: "filter (\<lambda>b. b \<noteq> (0, 0, 0, 0)) gtb \<noteq> []"
    by (simp add: filter_empty_conv)
  then have ne: "map (\<lambda>(y1, x1, y2, x2). (y1 / H, x1 / W, y2 / H, x2 / W))
                      (filter (\<lambda>b. b \<noteq> (0, 0, 0, 0)) gtb) \<noteq> []"
    by simp
  have lm: "length (map fst (filter snd (zip gtc (map (\<lambda>b. b \<noteq> (0, 0, 0, 0)) gtb))))
      = length (map (\<lambda>(y1, x1, y2, x2). (y1 / H, x1 / W, y2 / H, x2 / W))
                      (filter (\<lambda>b. b \<noteq> (0, 0, 0, 0)) gtb))"
    using length_masked_ids [OF len] by simp
  have ir: "\<forall>i \<in> set (slice_upto k (sp (tf_where (map P (reduce_max_axis1
              (compute_overlaps iou props G)))))). i < length props" for k P G
    by (rule sampled_in_range [OF sp]) (simp add: reduce_max_axis1_def compute_overlaps_def)
  show ?thesis
    unfolding build_single_target_locals_def
    apply (simp only: prod.case trim_zeros_eq Let_def)
    apply (rule exI)
    apply (rule raising_InrI)
     apply (rule boolean_mask_Inr)
     apply (simp add: len)
    apply (rule raising_InrI)
     apply (rule argmax_axis1_Inr)
     apply (simp add: compute_overlaps_def ne0)
    apply (simp only: fr if_False)
    apply (rule raising_InrI)
     apply (rule gather_Inr)
     apply (rule ir)
    apply (rule raising_InrI)
     apply (rule gather_Inr)
     apply (rule sampled_in_range [OF sn])
     apply (simp add: reduce_max_axis1_def compute_overlaps_def)
    apply (rule raising_InrI)
     apply (rule gather_rows_Inr)
     apply (rule sampled_in_range [OF sp])
     apply (simp add: reduce_max_axis1_def compute_overlaps_def)
    apply (rule raising_InrI)
     apply (rule argmax_axis1_Inr)
     apply (simp add: compute_overlaps_def ne0)
    apply (rule raising_InrI)
     apply (rule gather_Inr)
     apply (rule assigned_in_range [OF ne ir refl])
    apply (rule raising_InrI)
     apply (rule gather_Inr)
     apply (rule assigned_in_range [OF ne ir lm])
    apply (rule refl)
    done
qed

lemma raising_Inr_eq: "step = Inr v \<Longrightarrow> raising step rest = rest v"
  by (simp add: raising_def)

subsection \<open>The two calls, evaluated\<close>

lemma is_shuffle_rev: "is_shuffle rev"
  by (simp add: is_shuffle_def)

lemma init_fraction_nonzero: "roi_positive_fraction (ProposalTarget_init tm ts n) \<noteq> 0"
  by (simp add: ProposalTarget_init_def)

lemma tf_where_Cons:
  "tf_where (b # bs) = (if b then [0] else []) @ map Suc (tf_where bs)"
proof -
  have "[0..<Suc (length bs)] = 0 # [Suc 0..<Suc (length bs)]"
    by (rule upt_conv_Cons) simp
  then have "[0..<length (b # bs)] = 0 # map Suc [0..<length bs]"
    by (simp only: map_Suc_upt list.size) simp
  then show ?thesis
    unfolding tf_where_def by (simp only: filter.simps filter_map comp_def) simp
qed

lemma tf_where_Nil: "tf_where [] = []"
  by (simp add: tf_where_def)

lemma init_positive_indices:
  assumes run: "build_single_target_locals (ProposalTarget_init tm ts n) sp sn iou delta
                  props gtb gtc (H, W) = Inr l"
  shows "positive_indices l
           = take 128 (sp (tf_where (map (\<lambda>m. tf_greater_equal m (1 / 2)) (roi_iou_max l))))"
proof -
  have "positive_indices l = slice_upto 128
      (sp (tf_where (map (\<lambda>m. tf_greater_equal m (pos_iou_thr (ProposalTarget_init tm ts n)))
         (roi_iou_max l))))"
    using locals_positive_indices [OF run] by (simp only: init_positive_cap)
  then show ?thesis
    by (simp add: slice_upto_def ProposalTarget_init_def)
qed

lemma init_negative_indices:
  assumes run: "build_single_target_locals (ProposalTarget_init tm ts n) sp sn iou delta
                  props gtb gtc (H, W) = Inr l"
  shows "negative_indices l
           = take (3 * length (positive_indices l))
               (sn (tf_where (map (\<lambda>m. tf_less m (1 / 2)) (roi_iou_max l))))"
proof -
  have "negative_indices l
      = slice_upto (3 * int (length (positive_indices l))) (sn (negative_candidates l))"
    using locals_negative_indices [OF run] by (simp only: init_negative_quota)
  moreover have "nat (3 * int (length (positive_indices l))) = 3 * length (positive_indices l)"
    by simp
  ultimately show ?thesis
    by (simp add: slice_upto_def locals_negative_candidates [OF run] ProposalTarget_init_def)
qed

lemma scenario_run:
  "build_single_target_locals scenario_self
     rev rev box_iou pair_delta
     scenario_proposals scenario_gt_boxes scenario_gt_class_ids (10, 20) = Inr scenario_locals"
proof -
  have "\<exists>l. build_single_target_locals
          scenario_self
          rev rev box_iou pair_delta
          scenario_proposals scenario_gt_boxes scenario_gt_class_ids (10, 20) = Inr l"
    by (rule build_single_target_locals_returns [OF _ _ init_fraction_nonzero
          is_shuffle_rev is_shuffle_rev])
       (simp_all add: scenario_gt_boxes_def scenario_gt_class_ids_def)
  then obtain l :: "(box \<times> box) locals" where run:
    "build_single_target_locals scenario_self
       rev rev box_iou pair_delta
       scenario_proposals scenario_gt_boxes scenario_gt_class_ids (10, 20) = Inr l"
    by blast
  have gb: "gt_boxes_l l = [(0, 0, 2 / 5, 2 / 5), (3 / 5, 3 / 5, 1, 1)]"
    by (simp add: locals_gt_boxes [OF run] scenario_gt_boxes_def)
  have gc: "gt_class_ids_l l = [3, 5]"
    by (simp add: locals_gt_class_ids [OF run] scenario_gt_boxes_def scenario_gt_class_ids_def)
  have ov: "overlaps l = \<lparr> ncols = 2, rows = [[16 / 25, 0], [0, 1], [1, 0], [4 / 25, 4 / 25]] \<rparr>"
    by (simp add: locals_overlaps [OF run] gb compute_overlaps_def box_iou_def
          scenario_proposals_def)
  have am: "anchor_iou_argmax l = [0, 1, 0, 0]"
    by (simp add: locals_anchor_iou_argmax [OF run] ov)
  have mx: "roi_iou_max l = [Some (16 / 25), Some 1, Some 1, Some (4 / 25)]"
    by (simp add: locals_roi_iou_max [OF run] ov reduce_max_axis1_def)
  have nc: "negative_candidates l = [3]"
    by (simp add: locals_negative_candidates [OF run] mx ProposalTarget_init_def
          tf_less_def tf_where_Cons tf_where_Nil)
  have ps: "positive_indices l = [2, 1, 0]"
    by (simp add: init_positive_indices [OF run] mx tf_greater_equal_def
          tf_where_Cons tf_where_Nil)
  have ng: "negative_indices l = [3]"
    by (simp add: init_negative_indices [OF run] ps mx tf_less_def tf_where_Cons tf_where_Nil)
  have asg: "roi_gt_box_assignment l = [0, 1, 0]"
    by (simp add: locals_roi_gt_box_assignment [OF run] ps ov)
  have rs: "rois l = [(0, 0, 2 / 5, 2 / 5), (3 / 5, 3 / 5, 1, 1), (0, 0, 1 / 2, 1 / 2), (0, 0, 1, 1)]"
    by (simp add: locals_rois [OF run] ps ng scenario_proposals_def)
  have tms: "target_matchs l = [3, 5, 3, 0]"
    by (simp add: locals_target_matchs [OF run] asg gc ng)
  have tds: "target_deltas l = [((0, 0, 2 / 5, 2 / 5), (0, 0, 2 / 5, 2 / 5)),
                        ((3 / 5, 3 / 5, 1, 1), (3 / 5, 3 / 5, 1, 1)),
                        ((0, 0, 1 / 2, 1 / 2), (0, 0, 2 / 5, 2 / 5))]"
    by (simp add: locals_target_deltas [OF run] ps asg gb bbox2delta_def scenario_proposals_def)
  have "l = scenario_locals"
    by (rule locals.equality)
       (simp_all add: scenario_locals_def gb gc ov am mx nc ps ng asg rs tms tds)
  with run show ?thesis by simp
qed

lemma quiet_run:
  "build_single_target_locals scenario_self rev rev box_iou pair_delta
     quiet_proposals quiet_gt_boxes quiet_gt_class_ids (10, 20) = Inr quiet_locals"
proof -
  have "\<exists>l. build_single_target_locals scenario_self rev rev box_iou pair_delta
          quiet_proposals quiet_gt_boxes quiet_gt_class_ids (10, 20) = Inr l"
    by (rule build_single_target_locals_returns [OF _ _ init_fraction_nonzero
          is_shuffle_rev is_shuffle_rev])
       (simp_all add: quiet_gt_boxes_def quiet_gt_class_ids_def)
  then obtain l :: "(box \<times> box) locals" where run:
    "build_single_target_locals scenario_self rev rev box_iou pair_delta
       quiet_proposals quiet_gt_boxes quiet_gt_class_ids (10, 20) = Inr l"
    by blast
  have gb: "gt_boxes_l l = [(0, 0, 2 / 5, 2 / 5)]"
    by (simp add: locals_gt_boxes [OF run] quiet_gt_boxes_def)
  have gc: "gt_class_ids_l l = [3]"
    by (simp add: locals_gt_class_ids [OF run] quiet_gt_boxes_def quiet_gt_class_ids_def)
  have ov: "overlaps l = \<lparr> ncols = 1, rows = [[0], [4 / 25]] \<rparr>"
    by (simp add: locals_overlaps [OF run] gb compute_overlaps_def box_iou_def
          quiet_proposals_def)
  have am: "anchor_iou_argmax l = [0, 0]"
    by (simp add: locals_anchor_iou_argmax [OF run] ov)
  have mx: "roi_iou_max l = [Some 0, Some (4 / 25)]"
    by (simp add: locals_roi_iou_max [OF run] ov reduce_max_axis1_def)
  have nc: "negative_candidates l = [0, 1]"
    by (simp add: locals_negative_candidates [OF run] mx ProposalTarget_init_def
          tf_less_def tf_where_Cons tf_where_Nil)
  have ps: "positive_indices l = []"
    by (simp add: init_positive_indices [OF run] mx tf_greater_equal_def
          tf_where_Cons tf_where_Nil)
  have ng: "negative_indices l = []"
    by (simp add: init_negative_indices [OF run] ps)
  have asg: "roi_gt_box_assignment l = []"
    by (simp add: locals_roi_gt_box_assignment [OF run] ps)
  have rs: "rois l = []"
    by (simp add: locals_rois [OF run] ps ng)
  have tms: "target_matchs l = []"
    by (simp add: locals_target_matchs [OF run] asg ng)
  have tds: "target_deltas l = []"
    by (simp add: locals_target_deltas [OF run] ps asg bbox2delta_def)
  have "l = quiet_locals"
    by (rule locals.equality)
       (simp_all add: quiet_locals_def gb gc ov am mx nc ps ng asg rs tms tds)
  with run show ?thesis by simp
qed

subsection \<open>The constructor's attribute\<close>

text \<open>
  Claim C6. Whatever value is passed for \<open>num_rcnn_deltas\<close>, the attribute
  \<open>num_rcnn_deltas\<close> of the constructed object is 512: the argument is accepted and
  the literal 512 is stored in its place.
\<close>

theorem init_num_rcnn_deltas_is_512:
  "num_rcnn_deltas (ProposalTarget_init target_means_arg target_stds_arg n) = 512"
  by (simp add: ProposalTarget_init_def)

subsection \<open>Shape of the result\<close>

text \<open>
  Claim C1. Whenever a call of \<open>_build_single_target\<close> returns, \<open>rois\<close> has as many rows
  as positive plus negative indices were kept, \<open>target_matchs\<close> has as many entries as
  \<open>rois\<close>, and \<open>target_deltas\<close> has one row for each kept positive index only.
\<close>

theorem rois_and_targets_lengths:
  assumes run: "build_single_target_locals self sp sn iou delta props gtb gtc (H, W) = Inr l"
  shows "build_single_target self sp sn iou delta props gtb gtc (H, W)
           = Inr (rois l, target_matchs l, target_deltas l)
       \<and> length (rois l) = length (positive_indices l) + length (negative_indices l)
       \<and> length (target_matchs l) = length (rois l)
       \<and> length (target_deltas l) = length (positive_indices l)"
proof -
  have r: "length (rois l) = length (positive_indices l) + length (negative_indices l)"
    by (simp add: locals_rois [OF run])
  have a: "length (roi_gt_box_assignment l) = length (positive_indices l)"
    by (simp add: locals_roi_gt_box_assignment [OF run])
  have m: "length (target_matchs l) = length (rois l)"
    by (simp add: locals_target_matchs [OF run] a r)
  have t: "length (target_deltas l) = length (positive_indices l)"
    by (simp add: locals_target_deltas [OF run] bbox2delta_def a)
  from build_of_locals [OF run] r m t show ?thesis by simp
qed

theorem rois_and_targets_lengths_witness:
  "build_single_target scenario_self rev rev box_iou pair_delta
       scenario_proposals scenario_gt_boxes scenario_gt_class_ids (10, 20)
     = Inr (rois scenario_locals, target_matchs scenario_locals, target_deltas scenario_locals)
   \<and> length (positive_indices scenario_locals) = 3
   \<and> length (negative_indices scenario_locals) = 1
   \<and> length (rois scenario_locals) = 4
   \<and> length (target_matchs scenario_locals) = 4
   \<and> length (target_deltas scenario_locals) = 3"
  using rois_and_targets_lengths [OF scenario_run] by (simp add: scenario_locals_def)

text \<open>
  Claim C2. In the result of a call that returns, \<open>rois\<close> is the kept positive boxes
  followed by the kept negative boxes, and \<open>target_matchs\<close> is the class ids of the
  ground-truth boxes assigned to the kept positives followed by one zero for each kept
  negative.
\<close>

theorem rois_positives_then_negatives:
  assumes run: "build_single_target_locals self sp sn iou delta props gtb gtc (H, W) = Inr l"
  shows "build_single_target self sp sn iou delta props gtb gtc (H, W)
           = Inr (rois l, target_matchs l, target_deltas l)
       \<and> rois l = map (\<lambda>i. props ! i) (positive_indices l)
                  @ map (\<lambda>i. props ! i) (negative_indices l)
       \<and> (\<forall>i \<in> set (positive_indices l @ negative_indices l). i < length props)
       \<and> target_matchs l = map (\<lambda>j. gt_class_ids_l l ! j) (roi_gt_box_assignment l)
                  @ replicate (length (negative_indices l)) 0
       \<and> length (roi_gt_box_assignment l) = length (positive_indices l)
       \<and> (\<forall>j \<in> set (roi_gt_box_assignment l). j < length (gt_class_ids_l l))
       \<and> gt_class_ids_l l = map fst (filter snd (zip gtc (map (\<lambda>b. b \<noteq> (0, 0, 0, 0)) gtb)))"
proof -
  have a: "length (roi_gt_box_assignment l) = length (positive_indices l)"
    by (simp add: locals_roi_gt_box_assignment [OF run])
  have i: "\<forall>i \<in> set (positive_indices l @ negative_indices l). i < length props"
    using locals_indices_in_range [OF run] by auto
  from build_of_locals [OF run] locals_rois [OF run] i locals_target_matchs [OF run] a
    locals_assignment_in_range [OF run] locals_gt_class_ids [OF run]
  show ?thesis by blast
qed

theorem rois_positives_then_negatives_witness:
  "build_single_target scenario_self rev rev box_iou pair_delta
       scenario_proposals scenario_gt_boxes scenario_gt_class_ids (10, 20)
     = Inr (rois scenario_locals, target_matchs scenario_locals, target_deltas scenario_locals)
   \<and> rois scenario_locals
       = map (\<lambda>i. scenario_proposals ! i) [2, 1, 0] @ map (\<lambda>i. scenario_proposals ! i) [3]
   \<and> target_matchs scenario_locals = [3, 5, 3] @ replicate 1 0
   \<and> roi_gt_box_assignment scenario_locals = [0, 1, 0]
   \<and> gt_class_ids_l scenario_locals = [3, 5]"
  using rois_positives_then_negatives [OF scenario_run]
  by (simp add: scenario_locals_def scenario_proposals_def)

subsection \<open>Thresholds\<close>

text \<open>
  Claim C3. For an object made by the constructor, every kept positive index is the index
  of a proposal whose greatest overlap with the trimmed, normalised ground-truth boxes is
  at least \<open>pos_iou_thr\<close>, which is one half, and every kept negative index is the index
  of a proposal whose greatest overlap is below \<open>neg_iou_thr\<close>, which is one half too.
\<close>

theorem kept_rois_respect_thresholds:
  assumes run: "build_single_target_locals (ProposalTarget_init tm ts n) sp sn iou delta
                  props gtb gtc (H, W) = Inr l"
    and sp: "is_shuffle sp" and sn: "is_shuffle sn"
  shows "build_single_target (ProposalTarget_init tm ts n) sp sn iou delta props gtb gtc (H, W)
           = Inr (rois l, target_matchs l, target_deltas l)
       \<and> (\<forall>i \<in> set (positive_indices l). i < length props \<and>
            pos_iou_thr (ProposalTarget_init tm ts n)
              \<le> Max ((\<lambda>g. iou (props ! i) g) ` set (gt_boxes_l l)))
       \<and> (\<forall>i \<in> set (negative_indices l). i < length props \<and>
            Max ((\<lambda>g. iou (props ! i) g) ` set (gt_boxes_l l))
              < neg_iou_thr (ProposalTarget_init tm ts n))
       \<and> pos_iou_thr (ProposalTarget_init tm ts n) = 1 / 2
       \<and> neg_iou_thr (ProposalTarget_init tm ts n) = 1 / 2
       \<and> rois l = map (\<lambda>i. props ! i) (positive_indices l)
                  @ map (\<lambda>i. props ! i) (negative_indices l)
       \<and> gt_boxes_l l = map (\<lambda>(y1, x1, y2, x2). (y1 / H, x1 / W, y2 / H, x2 / W))
                          (filter (\<lambda>b. b \<noteq> (0, 0, 0, 0)) gtb)"
proof -
  have p: "\<forall>i \<in> set (positive_indices l). i < length props \<and>
            pos_iou_thr (ProposalTarget_init tm ts n)
              \<le> Max ((\<lambda>g. iou (props ! i) g) ` set (gt_boxes_l l))"
  proof
    fix i assume "i \<in> set (positive_indices l)"
    with positive_indices_subset [OF run sp]
    have i: "i < length props"
      and g: "tf_greater_equal (roi_iou_max l ! i) (pos_iou_thr (ProposalTarget_init tm ts n))"
      by auto
    from g roi_iou_max_nth [OF run i] i
    show "i < length props \<and> pos_iou_thr (ProposalTarget_init tm ts n)
              \<le> Max ((\<lambda>g. iou (props ! i) g) ` set (gt_boxes_l l))"
      by (simp add: tf_greater_equal_def)
  qed
  have q: "\<forall>i \<in> set (negative_indices l). i < length props \<and>
            Max ((\<lambda>g. iou (props ! i) g) ` set (gt_boxes_l l))
              < neg_iou_thr (ProposalTarget_init tm ts n)"
  proof
    fix i assume "i \<in> set (negative_indices l)"
    with negative_indices_subset [OF run sn]
    have i: "i < length props"
      and g: "tf_less (roi_iou_max l ! i) (neg_iou_thr (ProposalTarget_init tm ts n))"
      by auto
    from g roi_iou_max_nth [OF run i] i
    show "i < length props \<and> Max ((\<lambda>g. iou (props ! i) g) ` set (gt_boxes_l l))
              < neg_iou_thr (ProposalTarget_init tm ts n)"
      by (simp add: tf_less_def)
  qed
  have t: "pos_iou_thr (ProposalTarget_init tm ts n) = 1 / 2"
    "neg_iou_thr (ProposalTarget_init tm ts n) = 1 / 2"
    by (simp_all add: ProposalTarget_init_def)
  from build_of_locals [OF run] p q t locals_rois [OF run] locals_gt_boxes [OF run]
  show ?thesis by blast
qed

theorem kept_rois_respect_thresholds_witness:
  "0 \<in> set (positive_indices scenario_locals)
   \<and> 1 / 2 \<le> Max ((\<lambda>g. box_iou (scenario_proposals ! 0) g) ` set (gt_boxes_l scenario_locals))
   \<and> 3 \<in> set (negative_indices scenario_locals)
   \<and> Max ((\<lambda>g. box_iou (scenario_proposals ! 3) g) ` set (gt_boxes_l scenario_locals)) < 1 / 2"
proof -
  note t = kept_rois_respect_thresholds [OF scenario_run is_shuffle_rev is_shuffle_rev]
  have p: "0 \<in> set (positive_indices scenario_locals)"
    and q: "3 \<in> set (negative_indices scenario_locals)"
    by (simp_all add: scenario_locals_def)
  from t p have "pos_iou_thr scenario_self
      \<le> Max ((\<lambda>g. box_iou (scenario_proposals ! 0) g) ` set (gt_boxes_l scenario_locals))"
    by blast
  moreover from t have "pos_iou_thr scenario_self = 1 / 2"
    by blast
  moreover from t q have "Max ((\<lambda>g. box_iou (scenario_proposals ! 3) g)
      ` set (gt_boxes_l scenario_locals)) < neg_iou_thr scenario_self"
    by blast
  moreover from t have "neg_iou_thr scenario_self = 1 / 2"
    by blast
  ultimately show ?thesis using p q by simp
qed

subsection \<open>Counts\<close>

text \<open>
  Claim C4. For an object made by the constructor, at most
  \<open>floor (num_rcnn_deltas * roi_positive_fraction)\<close> positive indices are kept, which is
  128, and \<open>rois\<close> has at most \<open>num_rcnn_deltas\<close> rows, which is 512.
\<close>

theorem kept_counts_bounded:
  assumes run: "build_single_target_locals (ProposalTarget_init tm ts n) sp sn iou delta
                  props gtb gtc (H, W) = Inr l"
  shows "build_single_target (ProposalTarget_init tm ts n) sp sn iou delta props gtb gtc (H, W)
           = Inr (rois l, target_matchs l, target_deltas l)
       \<and> int (length (positive_indices l))
           \<le> \<lfloor>of_int (num_rcnn_deltas (ProposalTarget_init tm ts n))
                * roi_positive_fraction (ProposalTarget_init tm ts n)\<rfloor>
       \<and> \<lfloor>of_int (num_rcnn_deltas (ProposalTarget_init tm ts n))
                * roi_positive_fraction (ProposalTarget_init tm ts n)\<rfloor> = 128
       \<and> length (rois l) = length (positive_indices l) + length (negative_indices l)
       \<and> int (length (rois l)) \<le> num_rcnn_deltas (ProposalTarget_init tm ts n)
       \<and> num_rcnn_deltas (ProposalTarget_init tm ts n) = 512"
proof -
  note c = init_counts [OF run]
  have f: "\<lfloor>of_int (num_rcnn_deltas (ProposalTarget_init tm ts n))
                * roi_positive_fraction (ProposalTarget_init tm ts n)\<rfloor> = 128"
    by (simp add: ProposalTarget_init_def)
  have n: "num_rcnn_deltas (ProposalTarget_init tm ts n) = 512"
    by (simp add: ProposalTarget_init_def)
  have r: "length (rois l) = length (positive_indices l) + length (negative_indices l)"
    by (simp add: locals_rois [OF run])
  from c(2) have "int (length (negative_indices l)) \<le> 3 * int (length (positive_indices l))"
    by simp
  with c(1) r have "int (length (rois l)) \<le> 512" by simp
  with f n r c(1) build_of_locals [OF run] show ?thesis by simp
qed

theorem kept_counts_bounded_witness:
  "int (length (positive_indices scenario_locals)) \<le> 128
   \<and> length (rois scenario_locals)
       = length (positive_indices scenario_locals) + length (negative_indices scenario_locals)
   \<and> int (length (rois scenario_locals)) \<le> 512
   \<and> length (rois scenario_locals) = 4"
  using kept_counts_bounded [OF scenario_run]
  by (simp add: scenario_locals_def ProposalTarget_init_def)

text \<open>
  Claim C5. For an object made by the constructor and \<open>P\<close> kept positive indices, the
  number of kept negative indices is \<open>round (P / roi_positive_fraction) - P\<close>, or the
  number of negative candidates when there are fewer; the quota is never negative.
\<close>

theorem negative_count_follows_positive_count:
  assumes run: "build_single_target_locals (ProposalTarget_init tm ts n) sp sn iou delta
                  props gtb gtc (H, W) = Inr l"
    and sn: "is_shuffle sn"
  shows "build_single_target (ProposalTarget_init tm ts n) sp sn iou delta props gtb gtc (H, W)
           = Inr (rois l, target_matchs l, target_deltas l)
       \<and> int (length (negative_indices l))
           = min (round (of_nat (length (positive_indices l))
                           / roi_positive_fraction (ProposalTarget_init tm ts n))
                    - int (length (positive_indices l)))
                 (int (length (negative_candidates l)))
       \<and> 0 \<le> round (of_nat (length (positive_indices l))
                           / roi_positive_fraction (ProposalTarget_init tm ts n))
                    - int (length (positive_indices l))
       \<and> negative_candidates l
           = tf_where (map (\<lambda>m. tf_less m (neg_iou_thr (ProposalTarget_init tm ts n)))
                         (roi_iou_max l))"
proof -
  note c = init_counts [OF run]
  have "of_nat (length (positive_indices l)) / roi_positive_fraction (ProposalTarget_init tm ts n)
          = (of_int (4 * int (length (positive_indices l))) :: real)"
    by (simp add: ProposalTarget_init_def)
  moreover have "round (of_int (4 * int (length (positive_indices l))) :: real)
          = 4 * int (length (positive_indices l))"
    by (rule round_of_int)
  ultimately have q: "round (of_nat (length (positive_indices l))
                           / roi_positive_fraction (ProposalTarget_init tm ts n))
                  - int (length (positive_indices l)) = 3 * int (length (positive_indices l))"
    by simp
  have "int (length (negative_indices l))
           = min (3 * int (length (positive_indices l))) (int (length (negative_candidates l)))"
    using c(2) by (simp only: is_shuffle_length [OF sn])
  with q locals_negative_candidates [OF run] build_of_locals [OF run] show ?thesis
    by simp
qed

theorem negative_count_follows_positive_count_witness:
  "int (length (negative_indices scenario_locals))
     = min (round (of_nat (length (positive_indices scenario_locals))
                     / roi_positive_fraction scenario_self)
              - int (length (positive_indices scenario_locals)))
           (int (length (negative_candidates scenario_locals)))
   \<and> length (positive_indices scenario_locals) = 3
   \<and> length (negative_candidates scenario_locals) = 1
   \<and> length (negative_indices scenario_locals) = 1"
proof -
  from negative_count_follows_positive_count [OF scenario_run is_shuffle_rev]
  have "int (length (negative_indices scenario_locals))
     = min (round (of_nat (length (positive_indices scenario_locals))
                     / roi_positive_fraction scenario_self)
              - int (length (positive_indices scenario_locals)))
           (int (length (negative_candidates scenario_locals)))"
    by blast
  then show ?thesis by (simp add: scenario_locals_def)
qed

subsection \<open>Assignment of ground truth\<close>

text \<open>
  Claim C7. For every kept positive index, the ground-truth index that \<open>tf.argmax\<close> finds
  in the gathered overlap rows (line 111) is the one the first \<open>tf.argmax\<close> over the
  whole matrix found for that proposal (line 86), and the class label of the region is
  the class id of that ground-truth box.
\<close>

theorem assignment_agrees_with_first_argmax:
  assumes run: "build_single_target_locals self sp sn iou delta props gtb gtc (H, W) = Inr l"
  shows "build_single_target self sp sn iou delta props gtb gtc (H, W)
           = Inr (rois l, target_matchs l, target_deltas l)
       \<and> argmax_axis1 (overlaps l) = Inr (anchor_iou_argmax l)
       \<and> raising (gather_rows (overlaps l) (positive_indices l)) argmax_axis1
           = Inr (roi_gt_box_assignment l)
       \<and> gather (anchor_iou_argmax l) (positive_indices l) = Inr (roi_gt_box_assignment l)
       \<and> roi_gt_box_assignment l = map (\<lambda>i. anchor_iou_argmax l ! i) (positive_indices l)
       \<and> take (length (positive_indices l)) (target_matchs l)
           = map (\<lambda>i. gt_class_ids_l l ! (anchor_iou_argmax l ! i)) (positive_indices l)
       \<and> (\<forall>i \<in> set (positive_indices l).
            i < length (anchor_iou_argmax l) \<and> anchor_iou_argmax l ! i < length (gt_class_ids_l l))"
proof -
  from locals_gt_shapes [OF run] have nc: "ncols (overlaps l) \<noteq> 0"
    by (simp add: rows_overlaps [OF run])
  have lr: "length (rows (overlaps l)) = length props"
    by (simp add: rows_overlaps [OF run])
  have am: "anchor_iou_argmax l = map argmax_row (rows (overlaps l))"
    by (rule locals_anchor_iou_argmax [OF run])
  have la: "length (anchor_iou_argmax l) = length props"
    by (simp add: am lr)
  from locals_indices_in_range [OF run]
  have inb: "\<forall>i \<in> set (positive_indices l). i < length props" by blast
  have a: "argmax_axis1 (overlaps l) = Inr (anchor_iou_argmax l)"
    using nc am by (simp add: argmax_axis1_eq_Inr)
  have asg: "roi_gt_box_assignment l
      = map (\<lambda>i. argmax_row (rows (overlaps l) ! i)) (positive_indices l)"
    by (rule locals_roi_gt_box_assignment [OF run])
  have e: "roi_gt_box_assignment l = map (\<lambda>i. anchor_iou_argmax l ! i) (positive_indices l)"
    using inb lr by (simp add: asg am)
  have g: "gather (anchor_iou_argmax l) (positive_indices l) = Inr (roi_gt_box_assignment l)"
    using inb la e by (simp add: gather_eq_Inr)
  have "gather_rows (overlaps l) (positive_indices l)
      = Inr \<lparr> ncols = ncols (overlaps l),
              rows = map (\<lambda>i. rows (overlaps l) ! i) (positive_indices l) \<rparr>"
    using inb lr by (simp add: gather_rows_eq_Inr)
  then have b: "raising (gather_rows (overlaps l) (positive_indices l)) argmax_axis1
           = Inr (roi_gt_box_assignment l)"
    using nc asg by (simp add: raising_def argmax_axis1_def)
  have "length (roi_gt_box_assignment l) = length (positive_indices l)"
    by (simp add: asg)
  then have "take (length (positive_indices l)) (target_matchs l)
      = map (\<lambda>j. gt_class_ids_l l ! j) (roi_gt_box_assignment l)"
    by (simp add: locals_target_matchs [OF run])
  also have "\<dots> = map (\<lambda>i. gt_class_ids_l l ! (anchor_iou_argmax l ! i)) (positive_indices l)"
    by (simp add: e)
  finally have t: "take (length (positive_indices l)) (target_matchs l)
           = map (\<lambda>i. gt_class_ids_l l ! (anchor_iou_argmax l ! i)) (positive_indices l)" .
  from locals_assignment_in_range [OF run] e inb la
  have r: "\<forall>i \<in> set (positive_indices l).
            i < length (anchor_iou_argmax l) \<and> anchor_iou_argmax l ! i < length (gt_class_ids_l l)"
    by simp
  from build_of_locals [OF run] a b g e t r show ?thesis by blast
qed

theorem assignment_agrees_with_first_argmax_witness:
  "roi_gt_box_assignment scenario_locals
     = map (\<lambda>i. anchor_iou_argmax scenario_locals ! i) (positive_indices scenario_locals)
   \<and> roi_gt_box_assignment scenario_locals = [0, 1, 0]
   \<and> take 3 (target_matchs scenario_locals) = [3, 5, 3]"
  using assignment_agrees_with_first_argmax [OF scenario_run]
  by (simp add: scenario_locals_def)

subsection \<open>Images without a match\<close>

text \<open>
  Claim C8. For an image whose ground-truth rows are all zero the claim expects empty
  \<open>rois\<close>, \<open>target_matchs\<close> and \<open>target_deltas\<close>. The method does not return them: the
  trimmed ground truth is empty, the overlap matrix has no column, and the \<open>tf.argmax\<close>
  of line 86 rejects the empty axis.
\<close>

theorem all_zero_ground_truth_raises:
  assumes len: "length gtc = length gtb"
    and zero: "\<forall>b \<in> set gtb. b = (0, 0, 0, 0)"
  shows "build_single_target self sp sn iou delta props gtb gtc (H, W) = Inl EmptyReductionAxis"
proof -
  from zero have e: "filter (\<lambda>b. b \<noteq> (0, 0, 0, 0)) gtb = []"
    by (simp add: filter_empty_conv)
  have "build_single_target_locals self sp sn iou delta props gtb gtc (H, W)
          = Inl EmptyReductionAxis"
    unfolding build_single_target_locals_def
    apply (simp only: prod.case trim_zeros_eq Let_def)
    apply (rule trans)
     apply (rule raising_Inr_eq)
     apply (rule boolean_mask_Inr)
     apply (simp add: len)
    apply (rule raising_InlI)
    apply (simp add: argmax_axis1_def compute_overlaps_def e)
    done
  then show ?thesis by (simp add: build_single_target_def)
qed

theorem all_zero_ground_truth_raises_witness:
  "build_single_target scenario_self rev rev box_iou pair_delta
     [(0, 0, 1 / 2, 1 / 2)] [(0, 0, 0, 0), (0, 0, 0, 0)] [0, 0] (10, 20)
   = Inl EmptyReductionAxis"
  by (rule all_zero_ground_truth_raises) simp_all

text \<open>
  On a call that reaches the sampling of line 96, no best overlap at or above
  \<open>pos_iou_thr\<close> means three empty outputs: the quota of negatives is a multiple of the
  number of kept positives, so no negative region is kept without a positive one,
  whatever the number of negative candidates.
\<close>

lemma no_positives_no_rois:
  assumes run: "build_single_target_locals self sp sn iou delta props gtb gtc (H, W) = Inr l"
    and none: "\<forall>m \<in> set (roi_iou_max l). \<not> tf_greater_equal m (pos_iou_thr self)"
    and sp: "is_shuffle sp"
  shows "build_single_target self sp sn iou delta props gtb gtc (H, W) = Inr ([], [], [])
       \<and> positive_indices l = [] \<and> negative_indices l = []"
proof -
  from none have "set (tf_where (map (\<lambda>m. tf_greater_equal m (pos_iou_thr self)) (roi_iou_max l))) = {}"
    by (auto simp: set_tf_where)
  then have "tf_where (map (\<lambda>m. tf_greater_equal m (pos_iou_thr self)) (roi_iou_max l)) = []"
    by (simp only: set_empty)
  then have p: "positive_indices l = []"
    by (simp add: locals_positive_indices [OF run] is_shuffle_Nil [OF sp] slice_upto_Nil)
  have q: "negative_indices l = []"
    by (simp add: locals_negative_indices [OF run] p trunc_def slice_upto_zero)
  have a: "roi_gt_box_assignment l = []"
    by (simp add: locals_roi_gt_box_assignment [OF run] p)
  have "rois l = []" "target_matchs l = []" "target_deltas l = []"
    by (simp_all add: locals_rois [OF run] locals_target_matchs [OF run]
          locals_target_deltas [OF run] p q a bbox2delta_def)
  with build_of_locals [OF run] p q show ?thesis by simp
qed

lemma no_positives_no_rois_example:
  "build_single_target scenario_self rev rev box_iou pair_delta
     quiet_proposals quiet_gt_boxes quiet_gt_class_ids (10, 20) = Inr ([], [], [])
   \<and> negative_candidates quiet_locals = [0, 1]
   \<and> negative_indices quiet_locals = []"
proof -
  have "\<forall>m \<in> set (roi_iou_max quiet_locals). \<not> tf_greater_equal m (pos_iou_thr scenario_self)"
    by (simp add: quiet_locals_def tf_greater_equal_def ProposalTarget_init_def)
  from no_positives_no_rois [OF quiet_run this is_shuffle_rev] show ?thesis
    by (simp add: quiet_locals_def)
qed

lemma all_zero_gt_locals_raise:
  assumes len: "length gtc = length gtb"
    and zero: "\<forall>b \<in> set gtb. b = (0, 0, 0, 0)"
  shows "build_single_target_locals self sp sn iou delta props gtb gtc (H, W)
           = Inl EmptyReductionAxis"
proof -
  from zero have e: "filter (\<lambda>b. b \<noteq> (0, 0, 0, 0)) gtb = []"
    by (simp add: filter_empty_conv)
  show ?thesis
    unfolding build_single_target_locals_def
    apply (simp only: prod.case trim_zeros_eq Let_def)
    apply (rule trans)
     apply (rule raising_Inr_eq)
     apply (rule boolean_mask_Inr)
     apply (simp add: len)
    apply (rule raising_InlI)
    apply (simp add: argmax_axis1_def compute_overlaps_def e)
    done
qed

lemma tf_where_replicate_False: "tf_where (replicate n False) = []"
  by (simp add: tf_where_def filter_empty_conv)

lemma tf_where_replicate_True: "tf_where (replicate n True) = [0..<n]"
  by (simp add: tf_where_def filter_id_conv)

text \<open>
  Claim C9. The claim expects three empty outputs for every image in which the best
  overlap of no proposal reaches \<open>pos_iou_thr\<close>. An image whose ground-truth rows are all
  zero is such an image: the maximum of every proposal's empty row of overlaps is minus
  infinity, no proposal is a positive candidate and every proposal is a negative
  candidate. On it the method does not return the empty outputs: the \<open>tf.argmax\<close> of
  line 86 has rejected the empty axis before the sampling.
\<close>

theorem no_positives_yet_call_raises:
  assumes len: "length gtc = length gtb"
    and zero: "\<forall>b \<in> set gtb. b = (0, 0, 0, 0)"
  shows "reduce_max_axis1 (compute_overlaps iou props
            (map (\<lambda>(y1, x1, y2, x2). (y1 / H, x1 / W, y2 / H, x2 / W)) (fst (trim_zeros gtb))))
           = replicate (length props) None
       \<and> tf_where (map (\<lambda>m. tf_greater_equal m (pos_iou_thr self))
                      (replicate (length props) None)) = []
       \<and> tf_where (map (\<lambda>m. tf_less m (neg_iou_thr self))
                      (replicate (length props) None)) = [0..<length props]
       \<and> build_single_target self sp sn iou delta props gtb gtc (H, W)
           = Inl EmptyReductionAxis
       \<and> build_single_target self sp sn iou delta props gtb gtc (H, W) \<noteq> Inr ([], [], [])"
proof -
  from zero have e: "filter (\<lambda>b. b \<noteq> (0, 0, 0, 0)) gtb = []"
    by (simp add: filter_empty_conv)
  have m: "reduce_max_axis1 (compute_overlaps iou props
            (map (\<lambda>(y1, x1, y2, x2). (y1 / H, x1 / W, y2 / H, x2 / W)) (fst (trim_zeros gtb))))
           = replicate (length props) None"
    by (simp add: trim_zeros_eq e reduce_max_axis1_def compute_overlaps_def map_replicate_const)
  have p: "tf_where (map (\<lambda>m. tf_greater_equal m (pos_iou_thr self))
                      (replicate (length props) None)) = []"
    by (simp add: tf_greater_equal_def tf_where_replicate_False)
  have q: "tf_where (map (\<lambda>m. tf_less m (neg_iou_thr self))
                      (replicate (length props) None)) = [0..<length props]"
    by (simp add: tf_less_def tf_where_replicate_True)
  have r: "build_single_target self sp sn iou delta props gtb gtc (H, W)
           = Inl EmptyReductionAxis"
    by (simp add: build_single_target_def all_zero_gt_locals_raise [OF len zero])
  from m p q r show ?thesis by simp
qed

theorem no_positives_yet_call_raises_witness:
  "tf_where (map (\<lambda>m. tf_greater_equal m (pos_iou_thr scenario_self))
               (replicate (length quiet_proposals) None)) = []
   \<and> tf_where (map (\<lambda>m. tf_less m (neg_iou_thr scenario_self))
               (replicate (length quiet_proposals) None)) = [0, 1]
   \<and> build_single_target scenario_self rev rev box_iou pair_delta
       quiet_proposals [(0, 0, 0, 0), (0, 0, 0, 0)] [0, 0] (10, 20)
     = Inl EmptyReductionAxis
   \<and> build_single_target scenario_self rev rev box_iou pair_delta
       quiet_proposals [(0, 0, 0, 0), (0, 0, 0, 0)] [0, 0] (10, 20)
     \<noteq> Inr ([], [], [])"
proof -
  have "length [0 :: int, 0] = length [(0, 0, 0, 0) :: box, (0, 0, 0, 0)]"
    by simp
  moreover have "\<forall>b \<in> set [(0, 0, 0, 0) :: box, (0, 0, 0, 0)]. b = (0, 0, 0, 0)"
    by simp
  ultimately have t: "tf_where (map (\<lambda>m. tf_greater_equal m (pos_iou_thr scenario_self))
          (replicate (length quiet_proposals) None)) = []
      \<and> tf_where (map (\<lambda>m. tf_less m (neg_iou_thr scenario_self))
          (replicate (length quiet_proposals) None)) = [0..<length quiet_proposals]
      \<and> build_single_target scenario_self rev rev box_iou pair_delta
          quiet_proposals [(0, 0, 0, 0), (0, 0, 0, 0)] [0, 0] (10, 20)
        = Inl EmptyReductionAxis"
    using no_positives_yet_call_raises [of "[0, 0]" "[(0, 0, 0, 0), (0, 0, 0, 0)]"
        box_iou quiet_proposals 10 20 scenario_self rev rev pair_delta]
    by blast
  have "[0..<length quiet_proposals] = [0, 1]"
    by (simp add: quiet_proposals_def)
  with t show ?thesis by simp
qed

subsection \<open>No proposal twice\<close>

text \<open>
  Claim C10. For an object made by the constructor, whose two thresholds are equal, the
  kept positive and the kept negative indices have no index in common and neither list
  repeats an index: each proposal gives at most one row of \<open>rois\<close>.
\<close>

theorem kept_indices_distinct:
  assumes run: "build_single_target_locals (ProposalTarget_init tm ts n) sp sn iou delta
                  props gtb gtc (H, W) = Inr l"
    and sp: "is_shuffle sp" and sn: "is_shuffle sn"
  shows "build_single_target (ProposalTarget_init tm ts n) sp sn iou delta props gtb gtc (H, W)
           = Inr (rois l, target_matchs l, target_deltas l)
       \<and> distinct (positive_indices l @ negative_indices l)
       \<and> rois l = map (\<lambda>i. props ! i) (positive_indices l @ negative_indices l)
       \<and> (\<forall>i \<in> set (positive_indices l @ negative_indices l). i < length props)
       \<and> pos_iou_thr (ProposalTarget_init tm ts n) = neg_iou_thr (ProposalTarget_init tm ts n)"
proof -
  have eq: "pos_iou_thr (ProposalTarget_init tm ts n) = neg_iou_thr (ProposalTarget_init tm ts n)"
    by (simp add: ProposalTarget_init_def)
  have dp: "distinct (positive_indices l)"
    by (subst locals_positive_indices [OF run])
       (simp add: distinct_slice_upto is_shuffle_distinct [OF sp] distinct_tf_where)
  have dn: "distinct (negative_indices l)"
    by (subst locals_negative_indices [OF run])
       (simp add: distinct_slice_upto is_shuffle_distinct [OF sn]
          locals_negative_candidates [OF run] distinct_tf_where)
  have disj: "set (positive_indices l) \<inter> set (negative_indices l) = {}"
  proof -
    have "\<not> (tf_greater_equal m t \<and> tf_less m t)" for m t
      by (cases m) (auto simp: tf_greater_equal_def tf_less_def)
    with positive_indices_subset [OF run sp] negative_indices_subset [OF run sn] eq
    show ?thesis by auto
  qed
  from dp dn disj have dist: "distinct (positive_indices l @ negative_indices l)"
    by simp
  have r: "rois l = map (\<lambda>i. props ! i) (positive_indices l @ negative_indices l)"
    by (simp add: locals_rois [OF run])
  have i: "\<forall>i \<in> set (positive_indices l @ negative_indices l). i < length props"
    using locals_indices_in_range [OF run] by auto
  from build_of_locals [OF run] dist r i eq show ?thesis by blast
qed

theorem kept_indices_distinct_witness:
  "distinct (positive_indices scenario_locals @ negative_indices scenario_locals)
   \<and> positive_indices scenario_locals @ negative_indices scenario_locals = [2, 1, 0, 3]
   \<and> rois scenario_locals
       = map (\<lambda>i. scenario_proposals ! i)
           (positive_indices scenario_locals @ negative_indices scenario_locals)"
  using kept_indices_distinct [OF scenario_run is_shuffle_rev is_shuffle_rev]
  by (simp add: scenario_locals_def)

end
